theory Spec2Isabelle
  imports Main
begin

section \<open>useOverlay: the lifecycle state of one call site\<close>

text \<open>
  \<^verbatim>\<open>useOverlay\<close> keeps three \<^verbatim>\<open>useState\<close> cells and one ref:
  \<^verbatim>\<open>open\<close> (initially false), \<^verbatim>\<open>renderEnable\<close> (initially false),
  \<^verbatim>\<open>props\<close> (initially undefined) and \<^verbatim>\<open>animationRef\<close>, whose
  \<^verbatim>\<open>current\<close> is overwritten with the \<^verbatim>\<open>animation\<close> option on every render.
  The record is the content of these four cells; the type \<open>'p\<close> is
  \<^verbatim>\<open>InternalProps<T>\<close>. All functions are written over the record scheme, so that a
  larger state (for instance one that also logs the calls of user callbacks) can be threaded
  through the same callbacks.
\<close>

record 'p overlay_state =
  "open" :: bool
  renderEnable :: bool
  props :: "'p option"
  animationRef :: bool

text \<open>The state setters returned by \<^verbatim>\<open>useState\<close>.\<close>

definition setOpen :: "bool \<Rightarrow> ('p, 'z) overlay_state_scheme \<Rightarrow> ('p, 'z) overlay_state_scheme" where
  "setOpen b s = s\<lparr>open := b\<rparr>"

definition setRenderEnable :: "bool \<Rightarrow> ('p, 'z) overlay_state_scheme \<Rightarrow> ('p, 'z) overlay_state_scheme" where
  "setRenderEnable b s = s\<lparr>renderEnable := b\<rparr>"

definition setProps :: "'p option \<Rightarrow> ('p, 'z) overlay_state_scheme \<Rightarrow> ('p, 'z) overlay_state_scheme" where
  "setProps p s = s\<lparr>props := p\<rparr>"

text \<open>
  \<^verbatim>\<open>handleClose\<close>: with animation only \<^verbatim>\<open>setOpen(false)\<close>, without animation only
  \<^verbatim>\<open>setRenderEnable(false)\<close>.
\<close>

definition handleClose :: "('p, 'z) overlay_state_scheme \<Rightarrow> ('p, 'z) overlay_state_scheme" where
  "handleClose s = (if animationRef s then setOpen False s else setRenderEnable False s)"

text \<open>\<^verbatim>\<open>handleAnimationEnd\<close>: unmounts, and only when animation is enabled.\<close>

definition handleAnimationEnd :: "('p, 'z) overlay_state_scheme \<Rightarrow> ('p, 'z) overlay_state_scheme" where
  "handleAnimationEnd s = (if animationRef s then setRenderEnable False s else s)"

text \<open>
  The controller returned by \<^verbatim>\<open>openOverlay\<close>: \<^verbatim>\<open>update\<close> is
  \<^verbatim>\<open>(newProps) => setProps(newProps)\<close> and \<^verbatim>\<open>close\<close> is \<^verbatim>\<open>handleClose\<close>.
\<close>

record ('p, 'w) OverlayController =
  update :: "'p \<Rightarrow> 'w \<Rightarrow> 'w"
  close :: "'w \<Rightarrow> 'w"

text \<open>
  \<^verbatim>\<open>openOverlay(initializeProps)\<close>: \<^verbatim>\<open>setRenderEnable(true)\<close>, \<^verbatim>\<open>setOpen(true)\<close>,
  \<^verbatim>\<open>setProps(initializeProps)\<close>, then the controller is returned. The result pairs the
  controller with the state after the three assignments.
\<close>

definition openOverlay ::
  "'p option \<Rightarrow> ('p, 'z) overlay_state_scheme \<Rightarrow>
     ('p, ('p, 'z) overlay_state_scheme) OverlayController \<times> ('p, 'z) overlay_state_scheme" where
  "openOverlay initializeProps s =
     (\<lparr>update = (\<lambda>newProps. setProps (Some newProps)), close = handleClose\<rparr>,
      setProps initializeProps (setOpen True (setRenderEnable True s)))"

subsection \<open>Sequences of lifecycle operations\<close>

text \<open>
  The four operations that change the lifecycle state: a call of the opener, a call of the
  controller's \<^verbatim>\<open>update\<close>, a close request (\<^verbatim>\<open>handleClose\<close>, which is also the
  controller's \<^verbatim>\<open>close\<close> and the \<^verbatim>\<open>onClose\<close> handed to the adapter) and the
  animation-end notification (\<^verbatim>\<open>handleAnimationEnd\<close>). The controller does not depend on
  the arguments of the opener call that returned it, so \<open>Update\<close> and \<open>RequestClose\<close> take
  it from any such call.
\<close>

datatype 'p operation =
    Open "'p option"
  | Update 'p
  | RequestClose
  | NotifyAnimationDone

fun apply_operation ::
  "'p operation \<Rightarrow> ('p, 'z) overlay_state_scheme \<Rightarrow> ('p, 'z) overlay_state_scheme" where
  "apply_operation (Open initializeProps) s = snd (openOverlay initializeProps s)"
| "apply_operation (Update newProps) s = update (fst (openOverlay None s)) newProps s"
| "apply_operation RequestClose s = close (fst (openOverlay None s)) s"
| "apply_operation NotifyAnimationDone s = handleAnimationEnd s"

fun run :: "'p operation list \<Rightarrow> ('p, 'z) overlay_state_scheme \<Rightarrow> ('p, 'z) overlay_state_scheme" where
  "run [] s = s"
| "run (x # xs) s = run xs (apply_operation x s)"

text \<open>
  The state of a call site before any operation: the initial values of the three
  \<^verbatim>\<open>useState\<close> cells, and the \<^verbatim>\<open>animation\<close> option of the render in the ref.
\<close>

definition initial_state :: "bool \<Rightarrow> 'p overlay_state" where
  "initial_state animation = \<lparr>open = False, renderEnable = False, props = None, animationRef = animation\<rparr>"

text \<open>
  The destructuring default \<^verbatim>\<open>animation = true\<close> of \<^verbatim>\<open>useOverlay\<close>: an absent
  (undefined) option means enabled.
\<close>

definition animation_or_default :: "bool option \<Rightarrow> bool" where
  "animation_or_default animation = (case animation of None \<Rightarrow> True | Some b \<Rightarrow> b)"

text \<open>
  A sequence of operations respects the adapter contract from a state when every
  \<^verbatim>\<open>NotifyAnimationDone\<close> in it arrives while \<^verbatim>\<open>open\<close> is false, so never
  between a call of the opener and the close request that follows it.
\<close>

fun notified_only_when_closed :: "'p operation list \<Rightarrow> ('p, 'z) overlay_state_scheme \<Rightarrow> bool" where
  "notified_only_when_closed [] s = True"
| "notified_only_when_closed (NotifyAnimationDone # xs) s =
     (\<not> open s \<and> notified_only_when_closed xs (apply_operation NotifyAnimationDone s))"
| "notified_only_when_closed (x # xs) s = notified_only_when_closed xs (apply_operation x s)"


section \<open>Property bags and the property adapters\<close>

text \<open>
  An optional property of a JavaScript object is in one of three states: the object has no
  such own property, it has the property with the value \<^verbatim>\<open>undefined\<close>, or it has it
  with a proper value. Object spread tells the first from the other two.
\<close>

datatype 'a optional = Absent | Undefined | Value 'a

text \<open>A thrown \<^verbatim>\<open>Error\<close> with its message.\<close>

datatype error = Error string

text \<open>
  A callback acts on a world \<open>'w\<close> and either returns or throws. Both outcomes carry the
  world as the callback left it, since what it changed before a \<^verbatim>\<open>throw\<close> stays
  changed; \<open>'e\<close> is the type of thrown values. The value a callback returns is not used by
  any adapter and is left out.
\<close>

datatype ('e, 'w) outcome = Returned 'w | Threw 'e 'w

type_synonym ('e, 'w) callback = "'w \<Rightarrow> ('e, 'w) outcome"

text \<open>
  Two statements in sequence, \<^verbatim>\<open>a; b\<close>: the second runs in the world the first has
  left, and only if the first has returned; an exception of the first propagates.
\<close>

fun then_do :: "('e, 'w) outcome \<Rightarrow> ('e, 'w) callback \<Rightarrow> ('e, 'w) outcome" where
  "then_do (Returned w) rest = rest w"
| "then_do (Threw e w) rest = Threw e w"


text \<open>
  The properties of an overlay component that the adapters read or write
  (\<^verbatim>\<open>CustomOverlayProps\<close> together with the fields of \<^verbatim>\<open>ModalProps\<close> and
  \<^verbatim>\<open>DrawerProps\<close> that occur in the adapters); every other property is kept in
  \<open>other\<close>.
\<close>

record ('v, 'e, 'w, 'x) overlay_props =
  open_prop :: "bool optional"
  customClose :: "('e, 'w) callback optional"
  customOk :: "('v \<Rightarrow> ('e, 'w) callback) optional"
  maskClosable :: "bool optional"
  afterClose :: "('e, 'w) callback optional"
  afterOpenChange :: "(bool \<Rightarrow> ('e, 'w) callback) optional"
  other :: "string \<rightharpoonup> 'x"

text \<open>The \<^verbatim>\<open>state\<close> argument of an adapter: \<^verbatim>\<open>{ open, onClose, onAnimationEnd }\<close>.\<close>

record ('e, 'w) adapter_state =
  state_open :: bool
  onClose :: "('e, 'w) callback"
  onAnimationEnd :: "('e, 'w) callback"

text \<open>The empty object literal \<^verbatim>\<open>{}\<close>.\<close>

definition no_props :: "('v, 'e, 'w, 'x) overlay_props" where
  "no_props = \<lparr>open_prop = Absent, customClose = Absent, customOk = Absent, maskClosable = Absent,
     afterClose = Absent, afterOpenChange = Absent, other = Map.empty\<rparr>"

text \<open>
  Object spread \<^verbatim>\<open>{ ...a, ...b }\<close>: every own property of \<open>b\<close>, also one whose value
  is \<^verbatim>\<open>undefined\<close>, replaces that of \<open>a\<close>.
\<close>

definition override :: "'a optional \<Rightarrow> 'a optional \<Rightarrow> 'a optional" where
  "override a b = (case b of Absent \<Rightarrow> a | Undefined \<Rightarrow> Undefined | Value x \<Rightarrow> Value x)"

definition spread ::
  "('v, 'e, 'w, 'x) overlay_props \<Rightarrow> ('v, 'e, 'w, 'x) overlay_props
     \<Rightarrow> ('v, 'e, 'w, 'x) overlay_props" where
  "spread a b =
     \<lparr>open_prop = override (open_prop a) (open_prop b),
      customClose = override (customClose a) (customClose b),
      customOk = override (customOk a) (customOk b),
      maskClosable = override (maskClosable a) (maskClosable b),
      afterClose = override (afterClose a) (afterClose b),
      afterOpenChange = override (afterOpenChange a) (afterOpenChange b),
      other = other a ++ other b\<rparr>"

text \<open>Spreading \<^verbatim>\<open>undefined\<close> adds nothing.\<close>

fun spread_optional ::
  "('v, 'e, 'w, 'x) overlay_props \<Rightarrow> ('v, 'e, 'w, 'x) overlay_props option
     \<Rightarrow> ('v, 'e, 'w, 'x) overlay_props" where
  "spread_optional a None = a"
| "spread_optional a (Some b) = spread a b"

text \<open>
  The own property \<open>field\<close> of an object that may be \<^verbatim>\<open>undefined\<close>, as spread sees it
  (\<open>own\<close>), and the optional chain \<^verbatim>\<open>props?.field\<close> (\<open>chain\<close>).
\<close>

fun own :: "('r \<Rightarrow> 'a optional) \<Rightarrow> 'r option \<Rightarrow> 'a optional" where
  "own field None = Absent"
| "own field (Some p) = field p"

fun chain :: "('r \<Rightarrow> 'a optional) \<Rightarrow> 'r option \<Rightarrow> 'a optional" where
  "chain field None = Undefined"
| "chain field (Some p) = (case field p of Absent \<Rightarrow> Undefined | Undefined \<Rightarrow> Undefined | Value x \<Rightarrow> Value x)"

text \<open>
  The optional calls \<^verbatim>\<open>f?.()\<close> and \<^verbatim>\<open>f?.(x)\<close>: when \<open>f\<close> is
  \<^verbatim>\<open>undefined\<close> nothing happens and the expression returns. The truthiness test
  \<^verbatim>\<open>if (f)\<close> of a property that holds a function or nothing.
\<close>

fun call0 :: "('e, 'w) callback optional \<Rightarrow> ('e, 'w) callback" where
  "call0 (Value f) w = f w"
| "call0 Undefined w = Returned w"
| "call0 Absent w = Returned w"

fun call1 :: "('a \<Rightarrow> ('e, 'w) callback) optional \<Rightarrow> 'a \<Rightarrow> ('e, 'w) callback" where
  "call1 (Value f) x w = f x w"
| "call1 Undefined x w = Returned w"
| "call1 Absent x w = Returned w"

fun truthy :: "'a optional \<Rightarrow> bool" where
  "truthy (Value f) = True"
| "truthy Undefined = False"
| "truthy Absent = False"

text \<open>
  In the adapters below the parameter \<^verbatim>\<open>props\<close> of the source is written \<open>props_arg\<close>
  (the name \<open>props\<close> is the state cell of the hook) and the parameter \<^verbatim>\<open>open\<close> of the
  new \<^verbatim>\<open>afterOpenChange\<close> is written \<open>opened\<close>.
\<close>


text \<open>
  \<^verbatim>\<open>createModalPropsAdapter(defaultProps)\<close>:
  \<^verbatim>\<open>{ ...defaultProps, ...props, open, customClose, afterClose }\<close>, where the new
  \<^verbatim>\<open>afterClose\<close> has the body \<^verbatim>\<open>props?.afterClose?.(); state.onAnimationEnd();\<close>;
  then \<^verbatim>\<open>customOk\<close> is wrapped as above.
\<close>

definition createModalPropsAdapter ::
  "('v, 'e, 'w, 'x) overlay_props option \<Rightarrow> ('v, 'e, 'w, 'x) overlay_props option
     \<Rightarrow> ('e, 'w) adapter_state \<Rightarrow> ('v, 'e, 'w, 'x) overlay_props" where
  "createModalPropsAdapter defaultProps props_arg state =
     (let result = (spread_optional (spread_optional no_props defaultProps) props_arg)
            \<lparr>open_prop := Value (state_open state), customClose := Value (onClose state),
             afterClose := Value (\<lambda>w.
               then_do (call0 (chain afterClose props_arg) w) (onAnimationEnd state))\<rparr>
      in if truthy (customOk result)
         then (let originalCustomOk = customOk result
               in result\<lparr>customOk :=
                    Value (\<lambda>value w. then_do (call1 originalCustomOk value w) (onClose state))\<rparr>)
         else result)"

text \<open>
  \<^verbatim>\<open>createDrawerPropsAdapter()\<close>:
  \<^verbatim>\<open>{ maskClosable: false, ...props, open, customClose, afterOpenChange }\<close>, where the new
  \<^verbatim>\<open>afterOpenChange(open)\<close> has the body
  \<^verbatim>\<open>props?.afterOpenChange?.(open); if (!open) { state.onAnimationEnd(); }\<close>; then
  \<^verbatim>\<open>customOk\<close> is wrapped as above.
\<close>

definition createDrawerPropsAdapter ::
  "('v, 'e, 'w, 'x) overlay_props option \<Rightarrow> ('e, 'w) adapter_state
     \<Rightarrow> ('v, 'e, 'w, 'x) overlay_props" where
  "createDrawerPropsAdapter props_arg state =
     (let result = (spread_optional (no_props\<lparr>maskClosable := Value False\<rparr>) props_arg)
            \<lparr>open_prop := Value (state_open state), customClose := Value (onClose state),
             afterOpenChange := Value (\<lambda>opened w.
               then_do (call1 (chain afterOpenChange props_arg) opened w)
                 (\<lambda>w'. if \<not> opened then onAnimationEnd state w' else Returned w'))\<rparr>
      in if truthy (customOk result)
         then (let originalCustomOk = customOk result
               in result\<lparr>customOk :=
                    Value (\<lambda>value w. then_do (call1 originalCustomOk value w) (onClose state))\<rparr>)
         else result)"

text \<open>
  A world that only records which callbacks ran, in order; it is used to count the calls
  made by a wrapped callback. The recording \<^verbatim>\<open>customOk\<close> returns; the throwing one
  records its call and then throws.
\<close>

datatype 'v call = CustomOkCalled 'v | OnCloseCalled | OnAnimationEndCalled

definition recording_customOk :: "'v \<Rightarrow> (error, 'v call list) callback" where
  "recording_customOk value w = Returned (w @ [CustomOkCalled value])"


definition recording_state :: "bool \<Rightarrow> (error, 'v call list) adapter_state" where
  "recording_state b = \<lparr>state_open = b, onClose = (\<lambda>w. Returned (w @ [OnCloseCalled])),
     onAnimationEnd = (\<lambda>w. Returned (w @ [OnAnimationEndCalled]))\<rparr>"

text \<open>Caller properties that consist of a \<^verbatim>\<open>customOk\<close> only.\<close>

definition recording_props :: "(nat, error, nat call list, unit) overlay_props" where
  "recording_props = no_props\<lparr>customOk := Value recording_customOk\<rparr>"


section \<open>AntdOverlayProvider: the registry of holders\<close>

text \<open>
  The provider keeps the array \<^verbatim>\<open>holders\<close> in a \<^verbatim>\<open>useState\<close> cell, initially
  empty. \<^verbatim>\<open>addHolder\<close> and \<^verbatim>\<open>removeHolder\<close> pass a functional update to
  \<^verbatim>\<open>setHolders\<close>; the functions below are these updates, from the previous array to the
  next. \<^verbatim>\<open>removeHolder\<close> compares by reference (\<^verbatim>\<open>!==\<close>), so the type of nodes is
  one whose equality is identity.
\<close>

definition addHolder :: "'n \<Rightarrow> 'n list \<Rightarrow> 'n list" where
  "addHolder holder prev = prev @ [holder]"

definition removeHolder :: "'n \<Rightarrow> 'n list \<Rightarrow> 'n list" where
  "removeHolder holder prev = filter (\<lambda>h. h \<noteq> holder) prev"

text \<open>
  The context value. Its \<^verbatim>\<open>addHolder\<close> and \<^verbatim>\<open>removeHolder\<close> members are the two
  functions above, bound to the cell of the provider.
\<close>

record ('n, 'dm, 'dd) AntdOverlayContextValue =
  holders :: "'n list"
  defaultModalProps :: "'dm option"
  defaultDrawerProps :: "'dd option"

text \<open>
  What the provider renders, from its props and the content of its cell: the value given to
  \<^verbatim>\<open>AntdOverlayContext.Provider\<close> and, in order, the nodes rendered inside it,
  \<^verbatim>\<open>{children}\<close> and then \<^verbatim>\<open>{holders}\<close>.
\<close>

definition AntdOverlayProvider ::
  "'n \<Rightarrow> 'dm option \<Rightarrow> 'dd option \<Rightarrow> 'n list
     \<Rightarrow> ('n, 'dm, 'dd) AntdOverlayContextValue \<times> 'n list" where
  "AntdOverlayProvider children dmp ddp cell =
     (\<lparr>holders = cell, defaultModalProps = dmp, defaultDrawerProps = ddp\<rparr>, children # cell)"

text \<open>
  \<^verbatim>\<open>useAntdOverlayContext\<close> is \<^verbatim>\<open>useContext(AntdOverlayContext)\<close>: the value of the
  nearest enclosing provider, or the default \<^verbatim>\<open>null\<close> of \<^verbatim>\<open>createContext\<close>. Its
  argument is the value the surrounding tree provides, if any.
\<close>

definition useAntdOverlayContext :: "'c option \<Rightarrow> 'c option" where
  "useAntdOverlayContext provided = provided"

section \<open>Rendering: useOverlay and useGlobalOverlay\<close>

text \<open>
  A rendered holder: the empty keyed fragment, or the overlay component with its key and the
  properties computed by the adapter.
\<close>

datatype ('c, 'r) node = Fragment string | Element 'c string 'r

definition contextHolder ::
  "'c \<Rightarrow> string \<Rightarrow> ('p option \<Rightarrow> ('e, ('p, 'z) overlay_state_scheme) adapter_state \<Rightarrow> 'r)
     \<Rightarrow> ('p, 'z) overlay_state_scheme \<Rightarrow> ('c, 'r) node" where
  "contextHolder OverlayComponent key propsAdapter s =
     (if \<not> renderEnable s then Fragment key
      else Element OverlayComponent key
             (propsAdapter (props s)
                \<lparr>state_open = open s,
                 onClose = (\<lambda>w. Returned (handleClose w)),
                 onAnimationEnd = (\<lambda>w. Returned (handleAnimationEnd w))\<rparr>))"

text \<open>
  The options of \<^verbatim>\<open>useOverlay\<close>. The adapter is a required field here; in the source an
  absent one stands for \<^verbatim>\<open>defaultPropsAdapter\<close>.
\<close>

record 'a UseOverlayOptions =
  animation :: "bool option"
  keyPrefix :: "string option"
  propsAdapter :: 'a

text \<open>
  One render of \<^verbatim>\<open>useOverlay\<close>. The argument \<open>cells\<close> is what the hooks of this call
  site hold: nothing before the first render, the lifecycle state afterwards. The first
  render creates the cells with their initial values; every render writes the
  \<^verbatim>\<open>animation\<close> option into the ref. The result is the pair of the opener and the holder,
  and the cells after the render.
\<close>

definition useOverlay ::
  "'c \<Rightarrow> ('p option \<Rightarrow> ('e, 'p overlay_state) adapter_state \<Rightarrow> 'r) UseOverlayOptions \<Rightarrow> string
     \<Rightarrow> 'p overlay_state option
     \<Rightarrow> (('p option \<Rightarrow> 'p overlay_state
            \<Rightarrow> ('p, 'p overlay_state) OverlayController \<times> 'p overlay_state) \<times> ('c, 'r) node)
         \<times> 'p overlay_state option" where
  "useOverlay OverlayComponent options ident cells =
     (let enabled = animation_or_default (animation options);
          prefix = (case keyPrefix options of None \<Rightarrow> ''use-overlay'' | Some k \<Rightarrow> k);
          key = prefix @ ''-'' @ ident;
          s = (case cells of None \<Rightarrow> initial_state enabled | Some c \<Rightarrow> c\<lparr>animationRef := enabled\<rparr>)
      in ((openOverlay, contextHolder OverlayComponent key (propsAdapter options) s), Some s))"

text \<open>
  A call of \<^verbatim>\<open>useEffect\<close> made during a render: the effect, the cleanup it returns, and
  the dependencies that are nodes. Whether the effect runs after the commit is decided by
  React, which compares the dependencies with those of the previous render by reference;
  that decision is not part of a render and is not modelled.
\<close>

record 'n use_effect =
  effect_body :: "'n list \<Rightarrow> 'n list"
  effect_cleanup :: "'n list \<Rightarrow> 'n list"
  effect_deps :: "'n list"

text \<open>
  One render of \<^verbatim>\<open>useGlobalOverlay\<close>: the context is read first, and a missing one
  throws before \<^verbatim>\<open>useOverlay\<close> and \<^verbatim>\<open>useEffect\<close> are reached. Otherwise
  \<^verbatim>\<open>useOverlay\<close> is rendered and \<^verbatim>\<open>useEffect\<close> is called with the effect
  \<^verbatim>\<open>addHolder(contextHolder)\<close>, the cleanup \<^verbatim>\<open>removeHolder(contextHolder)\<close> and the
  dependencies \<^verbatim>\<open>[contextHolder, addHolder, removeHolder]\<close>, of which the last two are
  the provider's memoised callbacks. The argument \<open>site\<close> is what the hooks of the call site
  hold, as for \<^verbatim>\<open>useOverlay\<close>. The result is the thrown error or the opener, the cells
  after the render, and the calls of \<^verbatim>\<open>useEffect\<close> made.
\<close>

definition useGlobalOverlay ::
  "'ctx option \<Rightarrow> 'c \<Rightarrow> ('p option \<Rightarrow> ('e, 'p overlay_state) adapter_state \<Rightarrow> 'r) UseOverlayOptions
     \<Rightarrow> string \<Rightarrow> 'p overlay_state option
     \<Rightarrow> (error + ('p option \<Rightarrow> 'p overlay_state
            \<Rightarrow> ('p, 'p overlay_state) OverlayController \<times> 'p overlay_state))
         \<times> 'p overlay_state option \<times> ('c, 'r) node use_effect list" where
  "useGlobalOverlay provided OverlayComponent options ident site =
     (case useAntdOverlayContext provided of
        None \<Rightarrow>
          (Inl (Error (''useGlobalOverlay must be used within an AntdOverlayProvider. '' @
                       ''Please wrap your application with <AntdOverlayProvider>.'')),
           site, [])
      | Some context \<Rightarrow>
          (case useOverlay OverlayComponent options ident site of
             ((opener, holder), cells') \<Rightarrow>
               (Inr opener, cells',
                [\<lparr>effect_body = addHolder holder, effect_cleanup = removeHolder holder,
                  effect_deps = [holder]\<rparr>])))"

section \<open>Properties of the lifecycle\<close>

lemma animationRef_apply_operation [simp]:
  "animationRef (apply_operation x s) = animationRef s"
  by (cases x) (simp_all add: openOverlay_def handleClose_def handleAnimationEnd_def
      setOpen_def setRenderEnable_def setProps_def)

lemma animationRef_run [simp]: "animationRef (run xs s) = animationRef s"
  by (induction xs arbitrary: s) simp_all

lemma apply_operation_keeps_mounted:
  assumes "animationRef s" and "renderEnable s" and "x \<noteq> NotifyAnimationDone"
  shows "renderEnable (apply_operation x s)"
  using assms
  by (cases x) (simp_all add: openOverlay_def handleClose_def setOpen_def setRenderEnable_def
      setProps_def)

lemma run_keeps_mounted:
  assumes "animationRef s" and "renderEnable s" and "NotifyAnimationDone \<notin> set xs"
  shows "renderEnable (run xs s)"
  using assms
proof (induction xs arbitrary: s)
  case Nil
  then show ?case by simp
next
  case (Cons x xs)
  from Cons.prems have "x \<noteq> NotifyAnimationDone" by auto
  with Cons.prems have "renderEnable (apply_operation x s)"
    by (intro apply_operation_keeps_mounted) simp_all
  moreover have "animationRef (apply_operation x s)"
    using Cons.prems by simp
  moreover have "NotifyAnimationDone \<notin> set xs"
    using Cons.prems by simp
  ultimately show ?case
    using Cons.IH by simp
qed

text \<open>
  C1. With animation enabled (the value of an absent \<^verbatim>\<open>animation\<close> option), closing has
  two phases. From every mounted and open state, \<^verbatim>\<open>handleClose\<close> gives
  \<^verbatim>\<open>open = false\<close> and \<^verbatim>\<open>renderEnable = true\<close> at once. Whatever opener calls,
  updates and further close requests follow, the overlay stays mounted as long as
  \<^verbatim>\<open>handleAnimationEnd\<close> has not been called, and the call of
  \<^verbatim>\<open>handleAnimationEnd\<close> then sets \<^verbatim>\<open>renderEnable = false\<close>.
\<close>

theorem animated_close_is_two_phase:
  assumes "animation_or_default anim"
    and "animationRef s = animation_or_default anim"
    and "open s" and "renderEnable s"
    and "NotifyAnimationDone \<notin> set ops"
  shows "\<not> open (handleClose s) \<and> renderEnable (handleClose s)
       \<and> renderEnable (run ops (handleClose s))
       \<and> \<not> renderEnable (handleAnimationEnd (handleClose s))
       \<and> \<not> renderEnable (handleAnimationEnd (run ops (handleClose s)))"
proof -
  from assms have anim: "animationRef s" by simp
  have closed: "handleClose s = s\<lparr>open := False\<rparr>"
    using anim by (simp add: handleClose_def setOpen_def)
  have mounted: "renderEnable (handleClose s)" and anim': "animationRef (handleClose s)"
    using anim assms(4) by (simp_all add: closed)
  have later: "renderEnable (run ops (handleClose s))"
    using anim' mounted assms(5) by (rule run_keeps_mounted)
  have "animationRef (run ops (handleClose s))"
    using anim' by simp
  then have "\<not> renderEnable (handleAnimationEnd (run ops (handleClose s)))"
    by (simp add: handleAnimationEnd_def setRenderEnable_def)
  moreover have "\<not> renderEnable (handleAnimationEnd (handleClose s))"
    using anim' by (simp add: handleAnimationEnd_def setRenderEnable_def)
  ultimately show ?thesis
    using mounted later by (simp add: closed)
qed

theorem animated_close_is_two_phase_witness:
  "animation_or_default None
   \<and> animationRef (snd (openOverlay (Some ''x'') (initial_state (animation_or_default None))))
       = animation_or_default None
   \<and> open (snd (openOverlay (Some ''x'') (initial_state (animation_or_default None))))
   \<and> renderEnable (snd (openOverlay (Some ''x'') (initial_state (animation_or_default None))))
   \<and> NotifyAnimationDone \<notin> set [Update ''y'', RequestClose, Open None, RequestClose]
   \<and> \<not> open (handleClose (snd (openOverlay (Some ''x'') (initial_state (animation_or_default None)))))
   \<and> renderEnable (handleClose (snd (openOverlay (Some ''x'') (initial_state (animation_or_default None)))))
   \<and> renderEnable (run [Update ''y'', RequestClose, Open None, RequestClose]
        (handleClose (snd (openOverlay (Some ''x'') (initial_state (animation_or_default None))))))
   \<and> \<not> renderEnable (handleAnimationEnd
        (handleClose (snd (openOverlay (Some ''x'') (initial_state (animation_or_default None))))))
   \<and> \<not> renderEnable (handleAnimationEnd (run [Update ''y'', RequestClose, Open None, RequestClose]
        (handleClose (snd (openOverlay (Some ''x'') (initial_state (animation_or_default None)))))))"
proof -
  have a: "animation_or_default None"
    by (simp add: animation_or_default_def)
  have r: "animationRef (snd (openOverlay (Some ''x'') (initial_state (animation_or_default None))))
       = animation_or_default None"
    by (simp add: openOverlay_def initial_state_def setOpen_def setRenderEnable_def setProps_def)
  have o: "open (snd (openOverlay (Some ''x'') (initial_state (animation_or_default None))))"
    by (simp add: openOverlay_def initial_state_def setOpen_def setRenderEnable_def setProps_def)
  have m: "renderEnable (snd (openOverlay (Some ''x'') (initial_state (animation_or_default None))))"
    by (simp add: openOverlay_def initial_state_def setOpen_def setRenderEnable_def setProps_def)
  have n: "NotifyAnimationDone \<notin> set [Update ''y'', RequestClose, Open None, RequestClose]"
    by simp
  from animated_close_is_two_phase [OF a r o m n] a r o m n show ?thesis
    by blast
qed





text \<open>
  C3 (as stated). The claim asks that \<^verbatim>\<open>renderEnable = false\<close> implies
  \<^verbatim>\<open>open = false\<close> in every reachable state, under either animation setting. Without
  animation, opening and then closing reaches an unmounted state that is still open; with
  animation, so does opening followed by an animation-end notification that no close
  request preceded.
\<close>

theorem unmounted_implies_closed_counterexample:
  "\<not> (\<not> renderEnable (run [Open (Some ''x''), RequestClose] (initial_state False))
        \<longrightarrow> \<not> open (run [Open (Some ''x''), RequestClose] (initial_state False)))
   \<and> \<not> (\<not> renderEnable (run [Open (Some ''x''), NotifyAnimationDone] (initial_state True))
        \<longrightarrow> \<not> open (run [Open (Some ''x''), NotifyAnimationDone] (initial_state True)))"
  by (simp add: openOverlay_def initial_state_def handleClose_def handleAnimationEnd_def
      setOpen_def setRenderEnable_def setProps_def)

lemma notified_only_when_closed_Cons:
  "notified_only_when_closed (x # xs) s =
     ((x = NotifyAnimationDone \<longrightarrow> \<not> open s) \<and> notified_only_when_closed xs (apply_operation x s))"
  by (cases x) simp_all

lemma apply_operation_keeps_closed_when_unmounted:
  assumes "animationRef s" and "\<not> renderEnable s \<longrightarrow> \<not> open s"
    and "x = NotifyAnimationDone \<longrightarrow> \<not> open s"
  shows "\<not> renderEnable (apply_operation x s) \<longrightarrow> \<not> open (apply_operation x s)"
  using assms
  by (cases x) (simp_all add: openOverlay_def handleClose_def handleAnimationEnd_def setOpen_def
      setRenderEnable_def setProps_def)

text \<open>
  C3 (amended). With animation enabled, and for every sequence of the four operations in
  which \<^verbatim>\<open>handleAnimationEnd\<close> is called only while \<^verbatim>\<open>open\<close> is false (the adapter
  contract: only a finished closing transition is reported), every state reached from a
  state that satisfies the invariant, in particular from the initial state, satisfies
  \<^verbatim>\<open>renderEnable = false\<close> implies \<^verbatim>\<open>open = false\<close>.
\<close>

theorem animated_unmounted_implies_closed:
  assumes "animationRef s" and "\<not> renderEnable s \<longrightarrow> \<not> open s"
    and "notified_only_when_closed ops s"
  shows "\<not> renderEnable (run ops s) \<longrightarrow> \<not> open (run ops s)"
  using assms
proof (induction ops arbitrary: s)
  case Nil
  then show ?case by simp
next
  case (Cons x xs)
  from Cons.prems(3) have guard: "x = NotifyAnimationDone \<longrightarrow> \<not> open s"
    and rest: "notified_only_when_closed xs (apply_operation x s)"
    by (simp_all add: notified_only_when_closed_Cons)
  have inv: "\<not> renderEnable (apply_operation x s) \<longrightarrow> \<not> open (apply_operation x s)"
    using Cons.prems(1,2) guard by (rule apply_operation_keeps_closed_when_unmounted)
  have "animationRef (apply_operation x s)"
    using Cons.prems(1) by simp
  from Cons.IH [OF this inv rest] show ?case
    by simp
qed

theorem animated_unmounted_implies_closed_witness:
  "animationRef (initial_state True :: string overlay_state)
   \<and> \<not> renderEnable (initial_state True :: string overlay_state)
   \<and> \<not> open (initial_state True :: string overlay_state)
   \<and> notified_only_when_closed
        [Open (Some ''x''), Update ''y'', RequestClose, NotifyAnimationDone] (initial_state True)
   \<and> \<not> renderEnable (run [Open (Some ''x''), Update ''y'', RequestClose, NotifyAnimationDone]
        (initial_state True))
   \<and> \<not> open (run [Open (Some ''x''), Update ''y'', RequestClose, NotifyAnimationDone]
        (initial_state True))"
proof -
  have a: "animationRef (initial_state True :: string overlay_state)"
    by (simp add: initial_state_def)
  have i: "\<not> renderEnable (initial_state True :: string overlay_state)
        \<longrightarrow> \<not> open (initial_state True :: string overlay_state)"
    by (simp add: initial_state_def)
  have n: "notified_only_when_closed
        [Open (Some ''x''), Update ''y'', RequestClose, NotifyAnimationDone] (initial_state True)"
    by (simp add: openOverlay_def initial_state_def handleClose_def handleAnimationEnd_def
        setOpen_def setRenderEnable_def setProps_def)
  have u: "\<not> renderEnable (run [Open (Some ''x''), Update ''y'', RequestClose, NotifyAnimationDone]
        (initial_state True))"
    by (simp add: openOverlay_def initial_state_def handleClose_def handleAnimationEnd_def
        setOpen_def setRenderEnable_def setProps_def)
  have c: "\<not> renderEnable (initial_state True :: string overlay_state)"
    and d: "\<not> open (initial_state True :: string overlay_state)"
    by (simp_all add: initial_state_def)
  from animated_unmounted_implies_closed [OF a i n] a c d n u show ?thesis
    by blast
qed


text \<open>
  C4. The controller's \<^verbatim>\<open>update\<close> replaces the stored properties and never merges:
  after \<^verbatim>\<open>update(p)\<close> and then \<^verbatim>\<open>update(q)\<close> on the controller of any opener
  call, in any state, the stored properties are exactly \<open>q\<close> and no other cell has changed.
  For the property bags \<^verbatim>\<open>{a: 1}\<close> and \<^verbatim>\<open>{b: 2}\<close> the stored bag is
  \<^verbatim>\<open>{b: 2}\<close>, in which the key \<^verbatim>\<open>a\<close> is absent.
\<close>

theorem update_replaces_props:
  fixes s :: "(string \<rightharpoonup> int, 'z) overlay_state_scheme"
  shows "update (fst (openOverlay initializeProps s0)) q
           (update (fst (openOverlay initializeProps s0)) p s) = s\<lparr>props := Some q\<rparr>
       \<and> props (update (fst (openOverlay initializeProps s0)) [''b'' \<mapsto> 2]
           (update (fst (openOverlay initializeProps s0)) [''a'' \<mapsto> 1] s)) = Some [''b'' \<mapsto> 2]
       \<and> map_option (\<lambda>bag. bag ''a'')
           (props (update (fst (openOverlay initializeProps s0)) [''b'' \<mapsto> 2]
             (update (fst (openOverlay initializeProps s0)) [''a'' \<mapsto> 1] s))) = Some None"
  by (simp add: openOverlay_def setProps_def)

text \<open>
  C10. While an animated close is in flight (\<^verbatim>\<open>open = false\<close>,
  \<^verbatim>\<open>renderEnable = true\<close>, no animation-end notification yet), a call of the opener
  sets \<^verbatim>\<open>renderEnable = true\<close> and \<^verbatim>\<open>open = true\<close> and stores the arguments of the
  new call. It does not wait for \<^verbatim>\<open>handleAnimationEnd\<close>: the state it produces is the one
  it would produce had the notification already arrived.
\<close>

theorem reopen_during_animated_close:
  assumes "animationRef s" and "\<not> open s" and "renderEnable s"
  shows "snd (openOverlay initializeProps s)
           = s\<lparr>open := True, renderEnable := True, props := initializeProps\<rparr>
       \<and> open (snd (openOverlay initializeProps s))
       \<and> renderEnable (snd (openOverlay initializeProps s))
       \<and> props (snd (openOverlay initializeProps s)) = initializeProps
       \<and> snd (openOverlay initializeProps (handleAnimationEnd s))
           = snd (openOverlay initializeProps s)"
  using assms
  by (simp add: openOverlay_def handleAnimationEnd_def setOpen_def setRenderEnable_def setProps_def)

theorem reopen_during_animated_close_witness:
  "animationRef (handleClose (snd (openOverlay (Some ''x'') (initial_state True))))
   \<and> \<not> open (handleClose (snd (openOverlay (Some ''x'') (initial_state True))))
   \<and> renderEnable (handleClose (snd (openOverlay (Some ''x'') (initial_state True))))
   \<and> snd (openOverlay (Some ''y'') (handleClose (snd (openOverlay (Some ''x'') (initial_state True)))))
       = \<lparr>open = True, renderEnable = True, props = Some ''y'', animationRef = True\<rparr>"
proof -
  have a: "animationRef (handleClose (snd (openOverlay (Some ''x'') (initial_state True))))"
    by (simp add: openOverlay_def initial_state_def handleClose_def setOpen_def setRenderEnable_def
        setProps_def)
  have c: "\<not> open (handleClose (snd (openOverlay (Some ''x'') (initial_state True))))"
    by (simp add: openOverlay_def initial_state_def handleClose_def setOpen_def setRenderEnable_def
        setProps_def)
  have m: "renderEnable (handleClose (snd (openOverlay (Some ''x'') (initial_state True))))"
    by (simp add: openOverlay_def initial_state_def handleClose_def setOpen_def setRenderEnable_def
        setProps_def)
  have "handleClose (snd (openOverlay (Some ''x'') (initial_state True)))
          = \<lparr>open = False, renderEnable = True, props = Some ''x'', animationRef = True\<rparr>"
    by (simp add: openOverlay_def initial_state_def handleClose_def setOpen_def setRenderEnable_def
        setProps_def)
  with reopen_during_animated_close [OF a c m, of "Some ''y''"] a c m show ?thesis
    by simp
qed

section \<open>Properties of the adapters\<close>

lemma customOk_spread [simp]:
  "customOk (spread a b) = override (customOk a) (customOk b)"
  by (simp add: spread_def)

lemma maskClosable_spread [simp]:
  "maskClosable (spread a b) = override (maskClosable a) (maskClosable b)"
  by (simp add: spread_def)

lemma override_Value [simp]: "override a (Value x) = Value x"
  by (simp add: override_def)

lemma override_Absent [simp]: "override a Absent = a"
  by (simp add: override_def)

lemma then_do_Returned [simp]: "then_do x Returned = x"
  by (cases x) simp_all




lemma override_Absent_left [simp]: "override Absent b = b"
  by (cases b) (simp_all add: override_def)

lemma override_Undefined [simp]: "override a Undefined = Undefined"
  by (simp add: override_def)

lemma maskClosable_spread_optional:
  "maskClosable (spread_optional a caller) = override (maskClosable a) (own maskClosable caller)"
  by (cases caller) simp_all

lemma maskClosable_createDrawerPropsAdapter:
  "maskClosable (createDrawerPropsAdapter caller state)
     = override (Value False) (own maskClosable caller)"
  by (simp add: createDrawerPropsAdapter_def Let_def maskClosable_spread_optional)

lemma maskClosable_createModalPropsAdapter:
  "maskClosable (createModalPropsAdapter defaultProps caller state)
     = override (own maskClosable defaultProps) (own maskClosable caller)"
  by (simp add: createModalPropsAdapter_def Let_def maskClosable_spread_optional no_props_def)

text \<open>
  C6 (as stated). The claim asks that the Modal adapter, too, sets
  \<^verbatim>\<open>maskClosable\<close> to false by default. With no default properties from a provider
  and a caller that passes no properties, or properties without \<^verbatim>\<open>maskClosable\<close>, the
  result of the Modal adapter has no \<^verbatim>\<open>maskClosable\<close> at all, while the Drawer adapter
  gives false.
\<close>

theorem modal_maskClosable_default_counterexample:
  "maskClosable (createModalPropsAdapter None None (recording_state True)
       :: (nat, error, nat call list, unit) overlay_props) \<noteq> Value False
   \<and> maskClosable (createModalPropsAdapter None (Some recording_props) (recording_state True))
       = Absent
   \<and> maskClosable (createDrawerPropsAdapter (Some recording_props) (recording_state True))
       = Value False"
  by (simp add: maskClosable_createModalPropsAdapter maskClosable_createDrawerPropsAdapter
      recording_props_def no_props_def)

text \<open>
  C6 (amended). The Drawer adapter sets \<^verbatim>\<open>maskClosable\<close> to false when the caller's
  properties do not have it, and a caller-supplied value overrides this default. The Modal
  adapter has no default of its own: a caller-supplied value is passed on, and without one
  the result has the \<^verbatim>\<open>maskClosable\<close> of the provider's \<^verbatim>\<open>defaultModalProps\<close>, or
  none when these do not have it either.
\<close>

theorem maskClosable_default_and_override:
  "(own maskClosable caller = Absent \<longrightarrow>
      maskClosable (createDrawerPropsAdapter caller state) = Value False)
   \<and> (own maskClosable caller \<noteq> Absent \<longrightarrow>
      maskClosable (createDrawerPropsAdapter caller state) = own maskClosable caller)
   \<and> (own maskClosable caller \<noteq> Absent \<longrightarrow>
      maskClosable (createModalPropsAdapter defaultProps caller state) = own maskClosable caller)
   \<and> (own maskClosable caller = Absent \<longrightarrow>
      maskClosable (createModalPropsAdapter defaultProps caller state)
        = own maskClosable defaultProps)"
  by (cases "own maskClosable caller")
    (simp_all add: maskClosable_createModalPropsAdapter maskClosable_createDrawerPropsAdapter
      no_props_def)

theorem maskClosable_default_and_override_witness:
  "own maskClosable (Some recording_props) = Absent
   \<and> maskClosable (createDrawerPropsAdapter (Some recording_props) (recording_state True))
       = Value False
   \<and> maskClosable (createModalPropsAdapter (Some (recording_props\<lparr>maskClosable := Value False\<rparr>))
        (Some recording_props) (recording_state True)) = Value False
   \<and> own maskClosable (Some (recording_props\<lparr>maskClosable := Value True\<rparr>)) \<noteq> Absent
   \<and> maskClosable (createDrawerPropsAdapter (Some (recording_props\<lparr>maskClosable := Value True\<rparr>))
        (recording_state True)) = Value True
   \<and> maskClosable (createModalPropsAdapter (Some (recording_props\<lparr>maskClosable := Value False\<rparr>))
        (Some (recording_props\<lparr>maskClosable := Value True\<rparr>)) (recording_state True))
       = Value True"
proof -
  have absent: "own maskClosable (Some recording_props) = Absent"
    by (simp add: recording_props_def no_props_def)
  have supplied: "own maskClosable (Some (recording_props\<lparr>maskClosable := Value True\<rparr>)) \<noteq> Absent"
    by simp
  from maskClosable_default_and_override
         [of "Some recording_props" "recording_state True"
             "Some (recording_props\<lparr>maskClosable := Value False\<rparr>)"]
       maskClosable_default_and_override
         [of "Some (recording_props\<lparr>maskClosable := Value True\<rparr>)" "recording_state True"
             "Some (recording_props\<lparr>maskClosable := Value False\<rparr>)"]
       absent supplied
  show ?thesis
    by simp
qed

text \<open>
  C7. The Drawer adapter's \<^verbatim>\<open>afterOpenChange\<close> first calls the caller's
  \<^verbatim>\<open>afterOpenChange\<close>, if any, with the flag, and then calls
  \<^verbatim>\<open>state.onAnimationEnd\<close> when the flag is false and does nothing more when it is true.
  The Modal adapter's \<^verbatim>\<open>afterClose\<close> first calls the caller's \<^verbatim>\<open>afterClose\<close>, if any,
  and then calls \<^verbatim>\<open>state.onAnimationEnd\<close> with no test of any flag. (In both, the second
  step is reached when the caller's own callback returns; without a caller's callback the
  forwarding is all that happens.)
\<close>

theorem animation_end_forwarding:
  "afterOpenChange (createDrawerPropsAdapter caller state)
     = Value (\<lambda>opened w. then_do (call1 (chain afterOpenChange caller) opened w)
                (\<lambda>w'. if \<not> opened then onAnimationEnd state w' else Returned w'))
   \<and> call1 (afterOpenChange (createDrawerPropsAdapter caller state)) False w
       = then_do (call1 (chain afterOpenChange caller) False w) (onAnimationEnd state)
   \<and> call1 (afterOpenChange (createDrawerPropsAdapter caller state)) True w
       = call1 (chain afterOpenChange caller) True w
   \<and> afterClose (createModalPropsAdapter defaultProps caller state)
       = Value (\<lambda>w. then_do (call0 (chain afterClose caller) w) (onAnimationEnd state))
   \<and> call0 (afterClose (createModalPropsAdapter defaultProps caller state)) w
       = then_do (call0 (chain afterClose caller) w) (onAnimationEnd state)
   \<and> call1 (afterOpenChange (createDrawerPropsAdapter None state)) False w
       = onAnimationEnd state w
   \<and> call1 (afterOpenChange (createDrawerPropsAdapter None state)) True w = Returned w
   \<and> call0 (afterClose (createModalPropsAdapter defaultProps None state)) w
       = onAnimationEnd state w"
  by (auto simp add: createDrawerPropsAdapter_def createModalPropsAdapter_def Let_def fun_eq_iff)

section \<open>Properties of the registry and of the global opener\<close>

text \<open>
  C8. Without an enclosing \<^verbatim>\<open>AntdOverlayProvider\<close> the context is \<^verbatim>\<open>null\<close>, and a
  render of \<^verbatim>\<open>useGlobalOverlay\<close> throws the error that names the missing provider. The
  cells of the call site are left as they were, so no lifecycle cell has been created or
  changed, and \<^verbatim>\<open>useEffect\<close> has not been called, so no effect can touch a registry.
\<close>

theorem useGlobalOverlay_without_provider_throws:
  "useGlobalOverlay None OverlayComponent options ident site
     = (Inl (Error ''useGlobalOverlay must be used within an AntdOverlayProvider. Please wrap your application with <AntdOverlayProvider>.''),
        site, [])"
  by (simp add: useGlobalOverlay_def useAntdOverlayContext_def)

lemma addHolder_list: "foldl (\<lambda>cell h. addHolder h cell) cell hs = cell @ hs"
  by (induction hs arbitrary: cell) (simp_all add: addHolder_def)

text \<open>
  C9. \<^verbatim>\<open>addHolder\<close> appends to the end of \<^verbatim>\<open>holders\<close>, and the provider renders its
  children first and then the holders in the order of the array. So after registering
  \<open>P1\<close>, \<open>P2\<close>, \<open>P3\<close> in this order, the provider renders its children, the holders that
  were registered before, and then \<open>P1\<close>, \<open>P2\<close>, \<open>P3\<close>; the same holds for any list of
  registrations.
\<close>

theorem registry_order_is_render_order:
  "addHolder holder cell = cell @ [holder]
   \<and> snd (AntdOverlayProvider children dmp ddp cell) = children # cell
   \<and> snd (AntdOverlayProvider children dmp ddp
        (addHolder P3 (addHolder P2 (addHolder P1 [])))) = [children, P1, P2, P3]
   \<and> snd (AntdOverlayProvider children dmp ddp
        (addHolder P3 (addHolder P2 (addHolder P1 cell)))) = children # cell @ [P1, P2, P3]
   \<and> snd (AntdOverlayProvider children dmp ddp (foldl (\<lambda>c h. addHolder h c) cell hs))
       = children # cell @ hs
   \<and> holders (fst (AntdOverlayProvider children dmp ddp
        (addHolder P3 (addHolder P2 (addHolder P1 cell))))) = cell @ [P1, P2, P3]"
  by (simp add: addHolder_list) (simp add: addHolder_def AntdOverlayProvider_def)

text \<open>
  For comparison, the first render inside a provider: the lifecycle cells are created with
  their initial values, and \<^verbatim>\<open>useEffect\<close> is called to register the (still empty)
  holder.
\<close>

lemma useGlobalOverlay_first_render_with_provider:
  "useGlobalOverlay (Some context) OverlayComponent
       \<lparr>animation = None, keyPrefix = None, propsAdapter = adapter\<rparr> ident None
     = (Inr openOverlay, Some (initial_state True),
        [\<lparr>effect_body = addHolder (Fragment (''use-overlay-'' @ ident)),
          effect_cleanup = removeHolder (Fragment (''use-overlay-'' @ ident)),
          effect_deps = [Fragment (''use-overlay-'' @ ident)]\<rparr>])"
  by (simp add: useGlobalOverlay_def useAntdOverlayContext_def useOverlay_def Let_def
      animation_or_default_def initial_state_def contextHolder_def)

end
